theory Spec2Isabelle
  imports
    Main
    "HOL-Library.Char_ord"
    "HOL-Library.List_Lexorder"
    "HOL-Library.Multiset"
begin

section \<open>The generic data-fetch hook (src/hooks/useProjectData.ts)\<close>

subsection \<open>Data\<close>

text \<open>
  A fetched record. The hook is generic in the record type; the only field it ever looks
  at (through \<open>sortByOrderKey\<close>) is the order key, so a row is an extensible record with
  that one field. Order keys are strings compared lexicographically, character by
  character.
\<close>

record row =
  order_key :: string

text \<open>The hook's options: both identifiers are optional strings, the tag is a string.\<close>

record options =
  projectId :: "string option"
  shareId :: "string option"
  dataType :: string

text \<open>The three \<open>useState\<close> cells of the hook.\<close>

record 'r hook_state =
  data :: "'r list"
  loading :: bool
  error :: "string option"

text \<open>
  What the backend client is asked: a remote procedure with its \<open>share_id\<close> argument, or
  \<open>from(table).select("*").eq("project_id", pid).order(column, {ascending})\<close>. The
  direction is \<open>None\<close> where the source passes no option to \<open>order\<close>.
\<close>

datatype backend_call =
    Rpc string string
  | Select string string string "bool option"

text \<open>
  A thrown or returned error value: the handler only distinguishes instances of
  \<open>Error\<close>, whose message it keeps, from everything else.
\<close>

datatype thrown = Error string | NonError

record 'r response =
  resp_error :: "thrown option"
  resp_data :: "'r list option"

text \<open>The backend: an awaited call either rejects (\<open>Inl\<close>) or resolves to a response.\<close>

type_synonym 'r backend = "backend_call \<Rightarrow> thrown + 'r response"

subsection \<open>Operations\<close>

text \<open>JavaScript truthiness of an optional string: present and not empty.\<close>

fun truthy :: "string option \<Rightarrow> bool" where
  "truthy None = False"
| "truthy (Some s) = (s \<noteq> [])"

definition isPublicMode :: "options \<Rightarrow> bool" where
  "isPublicMode opts = truthy (shareId opts)"

definition isAuthenticatedMode :: "bool \<Rightarrow> options \<Rightarrow> bool" where
  "isAuthenticatedMode user opts = (truthy (projectId opts) \<and> user)"

text \<open>
  Modelled from the spec: \<open>sortByOrderKey\<close> lives in \<open>utils/orderKey\<close>, which is not among
  the sources. The spec says that it re-sorts the records by order key, ascending, under
  lexicographic comparison of the keys; records with equal keys keep their relative order,
  as the platform's array sort is stable.
\<close>

definition sortByOrderKey :: "('a row_scheme) list \<Rightarrow> ('a row_scheme) list" where
  "sortByOrderKey items = sort_key order_key items"

text \<open>The \<open>switch\<close> of public mode: one remote procedure per tag, or a thrown \<open>Error\<close>.\<close>

definition public_request :: "string \<Rightarrow> string \<Rightarrow> thrown + backend_call" where
  "public_request dt sid =
     (if dt = ''updates'' then Inr (Rpc ''get_public_project_updates'' sid)
      else if dt = ''properties'' then Inr (Rpc ''get_public_properties'' sid)
      else if dt = ''roadmap'' then Inr (Rpc ''get_public_project_roadmap'' sid)
      else if dt = ''documents'' then Inr (Rpc ''get_public_project_documents'' sid)
      else if dt = ''requirements'' then Inr (Rpc ''get_public_client_requirements'' sid)
      else if dt = ''client_tour_availability''
        then Inr (Rpc ''get_public_client_tour_availability'' sid)
      else Inl (Error (''Unsupported data type: '' @ dt)))"

text \<open>The \<open>switch\<close> of authenticated mode: one table query per tag, or a thrown \<open>Error\<close>.\<close>

definition authenticated_request :: "string \<Rightarrow> string \<Rightarrow> thrown + backend_call" where
  "authenticated_request dt pid =
     (if dt = ''updates'' then Inr (Select ''project_updates'' pid ''update_date'' (Some False))
      else if dt = ''properties'' then Inr (Select ''properties'' pid ''order_key'' (Some True))
      else if dt = ''roadmap'' then Inr (Select ''project_roadmap'' pid ''order_key'' (Some True))
      else if dt = ''documents''
        then Inr (Select ''project_documents'' pid ''order_key'' (Some True))
      else if dt = ''requirements'' then Inr (Select ''client_requirements'' pid ''category'' None)
      else if dt = ''client_tour_availability''
        then Inr (Select ''client_tour_availability'' pid ''proposed_datetime'' (Some True))
      else Inl (Error (''Unsupported data type: '' @ dt)))"

text \<open>
  The two branches of the \<open>try\<close> block that choose the request. \<open>Inr None\<close> is the
  fall-through in which \<open>result\<close> stays undefined.
\<close>

definition choose_request :: "bool \<Rightarrow> options \<Rightarrow> thrown + backend_call option" where
  "choose_request user opts =
     (if isPublicMode opts \<and> truthy (shareId opts) then
        (case shareId opts of
           Some sid \<Rightarrow> map_sum id Some (public_request (dataType opts) sid)
         | None \<Rightarrow> Inr None)
      else if isAuthenticatedMode user opts \<and> truthy (projectId opts) then
        (case projectId opts of
           Some pid \<Rightarrow> map_sum id Some (authenticated_request (dataType opts) pid)
         | None \<Rightarrow> Inr None)
      else Inr None)"

text \<open>
  Choosing and awaiting the request: the outcome (a throw, or the possibly undefined
  \<open>result\<close>) together with the calls that reached the backend.
\<close>

definition await_result ::
  "'r backend \<Rightarrow> bool \<Rightarrow> options \<Rightarrow> (thrown + 'r response option) \<times> backend_call list" where
  "await_result supabase user opts =
     (case choose_request user opts of
        Inl e \<Rightarrow> (Inl e, [])
      | Inr None \<Rightarrow> (Inr None, [])
      | Inr (Some c) \<Rightarrow>
          (case supabase c of
             Inl e \<Rightarrow> (Inl e, [c])
           | Inr r \<Rightarrow> (Inr (Some r), [c])))"

text \<open>\<open>err instanceof Error ? err.message : "An error occurred"\<close>\<close>

fun error_message :: "thrown \<Rightarrow> string" where
  "error_message (Error m) = m"
| "error_message NonError = ''An error occurred''"

text \<open>The \<open>catch\<close> and \<open>finally\<close> blocks, entered after \<open>setError(null)\<close>.\<close>

definition catch_finally :: "'r hook_state \<Rightarrow> thrown \<Rightarrow> 'r hook_state" where
  "catch_finally st e = st\<lparr>error := Some (error_message e), loading := False\<rparr>"

definition orderable :: "string \<Rightarrow> bool" where
  "orderable dt = (dt = ''properties'' \<or> dt = ''roadmap'' \<or> dt = ''documents'')"

text \<open>
  One run of \<open>fetchData\<close> on the current state of the hook: the state once the run has
  settled, and the backend calls it issued, in order.
\<close>

definition fetchData ::
  "('a row_scheme) backend \<Rightarrow> bool \<Rightarrow> options \<Rightarrow> ('a row_scheme) hook_state
     \<Rightarrow> ('a row_scheme) hook_state \<times> backend_call list" where
  "fetchData supabase user opts st =
     (if \<not> isPublicMode opts \<and> \<not> isAuthenticatedMode user opts then
        (st\<lparr>loading := False\<rparr>, [])
      else
        (let st0 = st\<lparr>error := None\<rparr>;
             (outcome, calls) = await_result supabase user opts
         in case outcome of
              Inl e \<Rightarrow> (catch_finally st0 e, calls)
            | Inr result \<Rightarrow>
                (case Option.bind result resp_error of
                   Some e \<Rightarrow> (catch_finally st0 e, calls)
                 | None \<Rightarrow>
                     (let d = (case Option.bind result resp_data of
                                 None \<Rightarrow> []
                               | Some rows \<Rightarrow> rows);
                          d' = (if orderable (dataType opts) then sortByOrderKey d else d)
                      in (st0\<lparr>data := d', loading := False\<rparr>, calls)))))"

text \<open>The state the hook starts from when it is first used.\<close>

definition initial_state :: "('a row_scheme) hook_state" where
  "initial_state = \<lparr>data = [], loading = True, error = None\<rparr>"

text \<open>
  Using the hook: the effect runs \<open>fetchData\<close> once on the initial state. The result is
  what the hook resolves to, with the backend calls issued on the way.
\<close>

definition useProjectData ::
  "('a row_scheme) backend \<Rightarrow> bool \<Rightarrow> options
     \<Rightarrow> ('a row_scheme) hook_state \<times> backend_call list" where
  "useProjectData supabase user opts = fetchData supabase user opts initial_state"

text \<open>The tags the option type lists.\<close>

definition recognized :: "string \<Rightarrow> bool" where
  "recognized dt =
     (dt \<in> {''updates'', ''properties'', ''roadmap'', ''documents'', ''requirements'',
            ''client_tour_availability''})"

subsection \<open>Two backends for concrete runs\<close>

text \<open>A backend that answers every call with one record and no error.\<close>

definition backend_one_record :: "row backend" where
  "backend_one_record c = Inr \<lparr>resp_error = None, resp_data = Some [\<lparr>order_key = ''a1''\<rparr>]\<rparr>"

text \<open>A backend whose every call rejects with an \<open>Error\<close>.\<close>

definition backend_rejecting :: "row backend" where
  "backend_rejecting c = Inl (Error ''boom'')"

section \<open>The page controller (src/pages/LeaseTrackerPage.tsx)\<close>

subsection \<open>Data\<close>

text \<open>
  A card descriptor is a plain object with string fields \<open>id\<close>, \<open>type\<close>, \<open>title\<close> and
  \<open>order_key\<close>. The reorder handler rebuilds each card with an object spread, which also
  accepts \<open>undefined\<close>, so a card is modelled as the object it is: a finite map from field
  names to strings.
\<close>

type_synonym ProjectCard = "string \<rightharpoonup> string"

definition DEFAULT_CARD_ORDER :: "ProjectCard list" where
  "DEFAULT_CARD_ORDER =
     [[''id'' \<mapsto> ''updates'', ''type'' \<mapsto> ''updates'', ''title'' \<mapsto> ''Recent Updates'',
       ''order_key'' \<mapsto> ''a0''],
      [''id'' \<mapsto> ''availability'', ''type'' \<mapsto> ''availability'',
       ''title'' \<mapsto> ''Client Tour Availability'', ''order_key'' \<mapsto> ''a1''],
      [''id'' \<mapsto> ''properties'', ''type'' \<mapsto> ''properties'',
       ''title'' \<mapsto> ''Properties of Interest'', ''order_key'' \<mapsto> ''a2''],
      [''id'' \<mapsto> ''roadmap'', ''type'' \<mapsto> ''roadmap'', ''title'' \<mapsto> ''Project Roadmap'',
       ''order_key'' \<mapsto> ''a3''],
      [''id'' \<mapsto> ''documents'', ''type'' \<mapsto> ''documents'', ''title'' \<mapsto> ''Project Documents'',
       ''order_key'' \<mapsto> ''a4'']]"

text \<open>The fields of a project row that the handlers read or write.\<close>

record ProjectData =
  project_id :: string
  public_share_id :: "string option"

text \<open>The \<open>useState\<close> cells that the reorder and share handlers touch.\<close>

record 'p page_state =
  project :: "'p ProjectData_scheme option"
  cardOrder :: "ProjectCard list"
  copySuccess :: bool

text \<open>
  What a handler does to the outside world, in the order in which it does it: the
  background save of the card order, the identifier generator, the two ways of copying,
  the blocking alert, the timer that resets the "copied" mark, and the update of
  \<open>public_share_id\<close> on the project record.
\<close>

datatype effect =
    SaveDashboardCardOrder "ProjectCard list" string
  | RandomUUID
  | ClipboardWriteText string
  | ExecCommandCopy string
  | Alert string
  | ResetCopySuccessLater
  | ProjectsUpdateShareId string string

text \<open>The awaited update either returns without an error, returns an error, or throws.\<close>

datatype update_outcome = UpdateOk | UpdateError | UpdateThrows

text \<open>
  The browser and the backend as the share handler sees them. \<open>writeText\<close> tells whether
  the promise of the clipboard API resolves; \<open>execCommand_copy\<close> is the legacy path, \<open>None\<close>
  when anything in it throws; \<open>randomUUID\<close> is \<open>None\<close> when the generator throws.
\<close>

record browser =
  origin :: string
  has_clipboard :: bool
  writeText :: "string \<Rightarrow> bool"
  execCommand_copy :: "string \<Rightarrow> bool option"
  randomUUID :: "string option"
  projects_update :: "string \<Rightarrow> string \<Rightarrow> update_outcome"

subsection \<open>Reordering the cards\<close>

text \<open>The decimal numeral of an array index, as a template literal prints it.\<close>

definition digit_char :: "nat \<Rightarrow> char" where
  "digit_char d = char_of (48 + d)"

function toString :: "nat \<Rightarrow> string" where
  "toString n =
     (if n < 10 then [digit_char n] else toString (n div 10) @ [digit_char (n mod 10)])"
  by pat_completeness auto
termination
  by (relation "measure (\<lambda>n. n)") auto

declare toString.simps [simp del]

text \<open>
  \<open>Array.prototype.splice(start, deleteCount, ...items)\<close> on integer arguments: a negative
  start counts from the end, the start is clamped into the array, and no more elements
  are deleted than the array has from there. The result is the deleted elements and the
  array afterwards.
\<close>

definition splice_start :: "int \<Rightarrow> nat \<Rightarrow> nat" where
  "splice_start start len =
     (if start < 0 then nat (max (int len + start) 0) else min (nat start) len)"

definition splice_arr :: "'a list \<Rightarrow> int \<Rightarrow> nat \<Rightarrow> 'a list \<Rightarrow> 'a list \<times> 'a list" where
  "splice_arr xs start deleteCount items =
     (let s = splice_start start (length xs);
          d = min deleteCount (length xs - s)
      in (take d (drop s xs), take s xs @ items @ drop (s + d) xs))"

text \<open>\<open>{...card, order_key: `a${index}`}\<close>, where \<open>card\<close> may be \<open>undefined\<close>.\<close>

definition rekey :: "nat \<Rightarrow> ProjectCard option \<Rightarrow> ProjectCard" where
  "rekey index c =
     (case c of None \<Rightarrow> Map.empty | Some obj \<Rightarrow> obj)(''order_key'' \<mapsto> ''a'' @ toString index)"

text \<open>
  The list the handler builds: the first element taken out by the first splice (or
  \<open>undefined\<close>), put back by the second, and every element given its new key.
\<close>

definition updatedOrder :: "ProjectCard list \<Rightarrow> int \<Rightarrow> int \<Rightarrow> ProjectCard list" where
  "updatedOrder cards oldIndex newIndex =
     (let (taken, newOrder) = splice_arr (map Some cards) oldIndex 1 [];
          removed = (case taken of [] \<Rightarrow> None | r # _ \<Rightarrow> r);
          (_, newOrder') = splice_arr newOrder newIndex 0 [removed]
      in map (\<lambda>(index, c). rekey index c) (enumerate 0 newOrder'))"

text \<open>
  Modelled from the spec: \<open>setCardOrder\<close> is the setter returned by \<open>usePersistentState\<close>
  (\<open>hooks/usePersistentState\<close>), which is not among the sources. The spec says that a
  reorder updates the local display state synchronously and that the durable local store
  is written on every reorder; the handlers never read that store back, so the setter is
  the update of the state cell.
\<close>

definition setCardOrder :: "ProjectCard list \<Rightarrow> 'p page_state \<Rightarrow> 'p page_state" where
  "setCardOrder cards st = st\<lparr>cardOrder := cards\<rparr>"

text \<open>
  The handler: the display state is set at once; the save to the backend is started
  only when there is a project with a non-empty identifier.
\<close>

definition handleCardReorder ::
  "'p page_state \<Rightarrow> int \<Rightarrow> int \<Rightarrow> 'p page_state \<times> effect list" where
  "handleCardReorder st oldIndex newIndex =
     (let updated = updatedOrder (cardOrder st) oldIndex newIndex
      in (setCardOrder updated st,
          (case project st of
             None \<Rightarrow> []
           | Some p \<Rightarrow>
               if project_id p \<noteq> [] then [SaveDashboardCardOrder updated (project_id p)]
               else [])))"

text \<open>
  The move in the spec's words: remove the element at the source position, reinsert it
  at the destination position.
\<close>

definition move :: "nat \<Rightarrow> nat \<Rightarrow> 'a list \<Rightarrow> 'a list" where
  "move i j xs =
     (let rest = take i xs @ drop (Suc i) xs
      in take j rest @ xs ! i # drop j rest)"

subsection \<open>Sharing the project\<close>

text \<open>
  \<open>copyToClipboard\<close>: the clipboard API first, when the browser has it; the hidden text
  area and \<open>execCommand("copy")\<close> when the API is missing or rejects.
\<close>

definition copyToClipboard :: "browser \<Rightarrow> string \<Rightarrow> bool \<times> effect list" where
  "copyToClipboard env text =
     (if has_clipboard env \<and> writeText env text then (True, [ClipboardWriteText text])
      else
        (let tried = (if has_clipboard env then [ClipboardWriteText text] else [])
         in case execCommand_copy env text of
              Some success \<Rightarrow> (success, tried @ [ExecCommandCopy text])
            | None \<Rightarrow> (False, tried @ [ExecCommandCopy text])))"

definition publicUrl :: "browser \<Rightarrow> string \<Rightarrow> string" where
  "publicUrl env sid = origin env @ ''/share/'' @ sid"

definition copy_failed :: string where
  "copy_failed = ''Failed to copy link to clipboard. Please try again.''"

definition create_failed :: string where
  "create_failed = ''Failed to create share link. Please try again.''"

text \<open>The branch for a project that already has a share identifier.\<close>

definition share_existing ::
  "browser \<Rightarrow> 'p page_state \<Rightarrow> string \<Rightarrow> 'p page_state \<times> effect list" where
  "share_existing env st sid =
     (let (success, copied) = copyToClipboard env (publicUrl env sid)
      in if success then (st\<lparr>copySuccess := True\<rparr>, copied @ [ResetCopySuccessLater])
         else (st, copied @ [Alert copy_failed]))"

text \<open>
  The branch that provisions an identifier: generate, copy, and only after a successful
  copy try to store it; the project in the page state changes only when the update
  returns no error.
\<close>

definition share_fresh ::
  "browser \<Rightarrow> 'p page_state \<Rightarrow> 'p ProjectData_scheme \<Rightarrow> 'p page_state \<times> effect list" where
  "share_fresh env st p =
     (case randomUUID env of
        None \<Rightarrow> (st, [RandomUUID, Alert create_failed])
      | Some sid \<Rightarrow>
          (let (success, copied) = copyToClipboard env (publicUrl env sid)
           in if \<not> success then (st, RandomUUID # copied @ [Alert copy_failed])
              else
                (let st1 = st\<lparr>copySuccess := True\<rparr>;
                     done = RandomUUID # copied @
                       [ResetCopySuccessLater, ProjectsUpdateShareId sid (project_id p)]
                 in case projects_update env sid (project_id p) of
                      UpdateOk \<Rightarrow>
                        (st1\<lparr>project := Some (p\<lparr>public_share_id := Some sid\<rparr>)\<rparr>, done)
                    | UpdateError \<Rightarrow> (st1, done)
                    | UpdateThrows \<Rightarrow> (st1, done))))"

definition handleShareProject ::
  "browser \<Rightarrow> bool \<Rightarrow> 'p page_state \<Rightarrow> 'p page_state \<times> effect list" where
  "handleShareProject env user st =
     (case project st of
        None \<Rightarrow> (st, [])
      | Some p \<Rightarrow>
          if \<not> user then (st, [])
          else (case public_share_id p of
                  None \<Rightarrow> share_fresh env st p
                | Some sid \<Rightarrow>
                    if sid \<noteq> [] then share_existing env st sid
                    else share_fresh env st p))"

section \<open>Properties of the data-fetch hook\<close>

subsection \<open>Which calls a run issues\<close>

lemma fetchData_noop:
  "\<not> isPublicMode opts \<Longrightarrow> \<not> isAuthenticatedMode user opts \<Longrightarrow>
   fetchData supabase user opts st = (st\<lparr>loading := False\<rparr>, [])"
  by (simp add: fetchData_def)

lemma fetchData_calls:
  "snd (fetchData supabase user opts st) =
     (if \<not> isPublicMode opts \<and> \<not> isAuthenticatedMode user opts then []
      else snd (await_result supabase user opts))"
  by (auto simp: fetchData_def Let_def split: prod.splits sum.splits option.splits)

lemma await_result_calls:
  "snd (await_result supabase user opts) =
     (case choose_request user opts of Inr (Some c) \<Rightarrow> [c] | _ \<Rightarrow> [])"
  by (auto simp: await_result_def split: sum.splits option.splits)

lemma choose_request_authenticated:
  "\<not> isPublicMode opts \<Longrightarrow> isAuthenticatedMode user opts \<Longrightarrow> projectId opts = Some pid \<Longrightarrow>
   choose_request user opts = map_sum id Some (authenticated_request (dataType opts) pid)"
  by (simp add: choose_request_def isAuthenticatedMode_def)

lemma choose_request_public:
  "shareId opts = Some sid \<Longrightarrow> sid \<noteq> [] \<Longrightarrow>
   choose_request user opts = map_sum id Some (public_request (dataType opts) sid)"
  by (simp add: choose_request_def isPublicMode_def)

lemma public_request_unsupported:
  "\<not> recognized dt \<Longrightarrow>
   public_request dt sid = Inl (Error (''Unsupported data type: '' @ dt))"
  by (simp add: recognized_def public_request_def)

lemma authenticated_request_unsupported:
  "\<not> recognized dt \<Longrightarrow>
   authenticated_request dt pid = Inl (Error (''Unsupported data type: '' @ dt))"
  by (simp add: recognized_def authenticated_request_def)

lemma public_request_recognized:
  "recognized dt \<Longrightarrow> \<exists>f. public_request dt sid = Inr (Rpc f sid)"
  by (auto simp: public_request_def recognized_def)

lemma choose_request_unsupported:
  assumes "isPublicMode opts \<or> isAuthenticatedMode user opts"
    and "\<not> recognized (dataType opts)"
  shows "choose_request user opts = Inl (Error (''Unsupported data type: '' @ dataType opts))"
  using assms
  by (cases "shareId opts"; cases "projectId opts")
     (auto simp: choose_request_def isPublicMode_def isAuthenticatedMode_def
        public_request_unsupported authenticated_request_unsupported)

lemma fetchData_issued:
  assumes "snd (fetchData supabase user opts st) = [c]"
  shows "(isPublicMode opts \<or> isAuthenticatedMode user opts) \<and>
         choose_request user opts = Inr (Some c)"
  using assms
  by (auto simp: fetchData_calls await_result_calls split: if_splits sum.splits option.splits)

lemma fetchData_request_throws:
  assumes "isPublicMode opts \<or> isAuthenticatedMode user opts"
    and "choose_request user opts = Inl e"
  shows "fetchData supabase user opts st =
           (st\<lparr>error := Some (error_message e), loading := False\<rparr>, [])"
  using assms by (auto simp: fetchData_def await_result_def catch_finally_def)

lemma fetchData_backend_rejects:
  assumes "isPublicMode opts \<or> isAuthenticatedMode user opts"
    and "choose_request user opts = Inr (Some c)"
    and "supabase c = Inl e"
  shows "fetchData supabase user opts st =
           (st\<lparr>error := Some (error_message e), loading := False\<rparr>, [c])"
  using assms by (auto simp: fetchData_def await_result_def catch_finally_def)

lemma fetchData_backend_error:
  assumes "isPublicMode opts \<or> isAuthenticatedMode user opts"
    and "choose_request user opts = Inr (Some c)"
    and "supabase c = Inr r"
    and "resp_error r = Some e"
  shows "fetchData supabase user opts st =
           (st\<lparr>error := Some (error_message e), loading := False\<rparr>, [c])"
  using assms by (auto simp: fetchData_def await_result_def catch_finally_def)

subsection \<open>Concrete inputs used below\<close>

lemma example_sort:
  "map order_key
     (sortByOrderKey [\<lparr>order_key = ''a2''\<rparr>, \<lparr>order_key = ''a0''\<rparr>, \<lparr>order_key = ''a1''\<rparr>]) =
   [''a0'', ''a1'', ''a2'']"
  by (simp add: sortByOrderKey_def)

subsection \<open>The claims about the hook\<close>

text \<open>
  C3. After a successful fetch for one of the tags \<open>properties\<close>, \<open>roadmap\<close>, \<open>documents\<close>
  (the run issued the call \<open>c\<close>, in whichever mode, and the backend answered it without an
  error), the hook's data is the backend's records sorted by order key: the sorted list is
  ascending in the keys and has exactly the records the backend returned, in whatever
  order it returned them; no error is set and loading is cleared.
\<close>

theorem fetchData_sorts_orderable:
  assumes "snd (fetchData supabase user opts st) = [c]"
    and "supabase c = Inr r"
    and "resp_error r = None"
    and "orderable (dataType opts)"
  shows "data (fst (fetchData supabase user opts st)) =
           sortByOrderKey (case resp_data r of None \<Rightarrow> [] | Some rows \<Rightarrow> rows) \<and>
         sorted (map order_key (data (fst (fetchData supabase user opts st)))) \<and>
         mset (data (fst (fetchData supabase user opts st))) =
           mset (case resp_data r of None \<Rightarrow> [] | Some rows \<Rightarrow> rows) \<and>
         error (fst (fetchData supabase user opts st)) = None \<and>
         \<not> loading (fst (fetchData supabase user opts st))"
proof -
  from assms(1) have mode: "\<not> (\<not> isPublicMode opts \<and> \<not> isAuthenticatedMode user opts)"
    and "snd (await_result supabase user opts) = [c]"
    by (auto simp: fetchData_calls split: if_splits)
  then have "choose_request user opts = Inr (Some c)"
    by (auto simp: await_result_calls split: sum.splits option.splits)
  with assms(2) have awaited: "await_result supabase user opts = (Inr (Some r), [c])"
    by (simp add: await_result_def)
  have d: "data (fst (fetchData supabase user opts st)) =
             sortByOrderKey (case resp_data r of None \<Rightarrow> [] | Some rows \<Rightarrow> rows)"
    and e: "error (fst (fetchData supabase user opts st)) = None"
    and l: "\<not> loading (fst (fetchData supabase user opts st))"
    using mode awaited assms(3,4) by (auto simp: fetchData_def Let_def split: option.splits)
  show ?thesis
    unfolding d using e l unfolding d by (simp add: sortByOrderKey_def)
qed

theorem fetchData_sorts_orderable_witness:
  "map order_key
     (data (fst (fetchData
        (\<lambda>c. Inr \<lparr>resp_error = None,
                  resp_data = Some [\<lparr>order_key = ''a2''\<rparr>, \<lparr>order_key = ''a0''\<rparr>,
                                    \<lparr>order_key = ''a1''\<rparr>]\<rparr>)
        True \<lparr>projectId = Some ''p1'', shareId = None, dataType = ''properties''\<rparr>
        initial_state))) =
   [''a0'', ''a1'', ''a2''] \<and>
   map order_key
     (data (fst (fetchData
        (\<lambda>c. Inr \<lparr>resp_error = None,
                  resp_data = Some [\<lparr>order_key = ''a2''\<rparr>, \<lparr>order_key = ''a0''\<rparr>,
                                    \<lparr>order_key = ''a1''\<rparr>]\<rparr>)
        False \<lparr>projectId = None, shareId = Some ''s1'', dataType = ''documents''\<rparr>
        initial_state))) =
   [''a0'', ''a1'', ''a2'']"
proof -
  let ?rows = "[\<lparr>order_key = ''a2''\<rparr>, \<lparr>order_key = ''a0''\<rparr>, \<lparr>order_key = ''a1''\<rparr>]"
  let ?r = "\<lparr>resp_error = None, resp_data = Some ?rows\<rparr>"
  let ?sb = "\<lambda>c :: backend_call. (Inr ?r :: thrown + row response)"
  let ?auth = "\<lparr>projectId = Some ''p1'', shareId = None, dataType = ''properties''\<rparr>"
  let ?pub = "\<lparr>projectId = None, shareId = Some ''s1'', dataType = ''documents''\<rparr>"
  let ?c = "Select ''properties'' ''p1'' ''order_key'' (Some True)"
  let ?c' = "Rpc ''get_public_project_documents'' ''s1''"
  have a1: "snd (fetchData ?sb True ?auth initial_state) = [?c]"
    by (simp add: fetchData_calls await_result_calls choose_request_def
        isPublicMode_def isAuthenticatedMode_def authenticated_request_def)
  have b1: "snd (fetchData ?sb False ?pub initial_state) = [?c']"
    by (simp add: fetchData_calls await_result_calls choose_request_def
        isPublicMode_def public_request_def)
  have a2: "?sb ?c = Inr ?r" and b2: "?sb ?c' = Inr ?r" by simp_all
  have a3: "resp_error ?r = None" by simp
  have a4: "orderable (dataType ?auth)" and b4: "orderable (dataType ?pub)"
    by (simp_all add: orderable_def)
  from fetchData_sorts_orderable [OF a1 a2 a3 a4]
  have auth: "data (fst (fetchData ?sb True ?auth initial_state)) = sortByOrderKey ?rows"
    by simp
  from fetchData_sorts_orderable [OF b1 b2 a3 b4]
  have pub: "data (fst (fetchData ?sb False ?pub initial_state)) = sortByOrderKey ?rows"
    by simp
  show ?thesis
    by (simp only: auth pub example_sort)
qed

text \<open>
  C4, as stated, fails: "for every invocation ... data = [], error = null" does not hold
  once the hook has state. After a first fetch as a signed-in user has loaded a record, the
  run that follows a sign-out (neither identifier usable) returns early and the hook still
  holds that record; likewise, after a first fetch that failed, the run that follows the
  sign-out still holds the error message.
\<close>

theorem useProjectData_no_identifier_counterexample:
  "\<not> isPublicMode \<lparr>projectId = Some ''p1'', shareId = None, dataType = ''updates''\<rparr> \<and>
   \<not> isAuthenticatedMode False
       \<lparr>projectId = Some ''p1'', shareId = None, dataType = ''updates''\<rparr> \<and>
   fst (fetchData backend_one_record False
          \<lparr>projectId = Some ''p1'', shareId = None, dataType = ''updates''\<rparr>
          (fst (useProjectData backend_one_record True
             \<lparr>projectId = Some ''p1'', shareId = None, dataType = ''updates''\<rparr>))) =
     \<lparr>data = [\<lparr>order_key = ''a1''\<rparr>], loading = False, error = None\<rparr> \<and>
   data (fst (fetchData backend_one_record False
          \<lparr>projectId = Some ''p1'', shareId = None, dataType = ''updates''\<rparr>
          (fst (useProjectData backend_one_record True
             \<lparr>projectId = Some ''p1'', shareId = None, dataType = ''updates''\<rparr>)))) \<noteq> [] \<and>
   error (fst (fetchData backend_rejecting False
          \<lparr>projectId = Some ''p1'', shareId = None, dataType = ''updates''\<rparr>
          (fst (useProjectData backend_rejecting True
             \<lparr>projectId = Some ''p1'', shareId = None, dataType = ''updates''\<rparr>)))) =
     Some ''boom'' \<and>
   error (fst (fetchData backend_rejecting False
          \<lparr>projectId = Some ''p1'', shareId = None, dataType = ''updates''\<rparr>
          (fst (useProjectData backend_rejecting True
             \<lparr>projectId = Some ''p1'', shareId = None, dataType = ''updates''\<rparr>)))) \<noteq> None"
  by (simp add: useProjectData_def fetchData_def await_result_def choose_request_def
      isPublicMode_def isAuthenticatedMode_def authenticated_request_def catch_finally_def
      orderable_def initial_state_def backend_one_record_def backend_rejecting_def)

text \<open>
  C4, amended. A run of the fetch in which neither a share identifier nor a project
  identifier together with a signed-in user is usable issues no backend query or RPC
  call, clears loading, and leaves data and error as they were before the run. When the
  hook is first used, that is data = [], loading = false, error = null.
\<close>

theorem useProjectData_no_identifier:
  assumes "\<not> isPublicMode opts"
    and "\<not> isAuthenticatedMode user opts"
  shows "fetchData supabase user opts st = (st\<lparr>loading := False\<rparr>, []) \<and>
         useProjectData supabase user opts =
           (\<lparr>data = [], loading = False, error = None\<rparr>, [])"
  using assms
  by (simp add: useProjectData_def fetchData_noop initial_state_def)

theorem useProjectData_no_identifier_witness:
  "fetchData (\<lambda>c. Inl NonError) False
     \<lparr>projectId = Some ''p1'', shareId = Some [], dataType = ''updates''\<rparr>
     \<lparr>data = [\<lparr>order_key = ''a1''\<rparr>], loading = True, error = Some ''boom''\<rparr> =
   (\<lparr>data = [\<lparr>order_key = ''a1''\<rparr>], loading = False, error = Some ''boom''\<rparr>, []) \<and>
   useProjectData (\<lambda>c. Inl NonError) False
     \<lparr>projectId = Some ''p1'', shareId = Some [], dataType = ''updates''\<rparr> =
   (\<lparr>data = ([] :: row list), loading = False, error = None\<rparr>, [])"
  using useProjectData_no_identifier
    [of "\<lparr>projectId = Some ''p1'', shareId = Some [], dataType = ''updates''\<rparr>" False
        "\<lambda>c. Inl NonError"
        "\<lparr>data = [\<lparr>order_key = ''a1''\<rparr>], loading = True, error = Some ''boom''\<rparr>"]
  by (simp add: isPublicMode_def isAuthenticatedMode_def)

text \<open>
  C5, as stated, fails: "empty data" does not hold once the hook has data. After a first
  fetch of the properties has loaded a record, a run with the unsupported tag "notes"
  sets the error message and the hook still holds that record.
\<close>

theorem useProjectData_unsupported_counterexample:
  "isAuthenticatedMode True \<lparr>projectId = Some ''p1'', shareId = None, dataType = ''notes''\<rparr> \<and>
   \<not> recognized ''notes'' \<and>
   fst (fetchData backend_one_record True
          \<lparr>projectId = Some ''p1'', shareId = None, dataType = ''notes''\<rparr>
          (fst (useProjectData backend_one_record True
             \<lparr>projectId = Some ''p1'', shareId = None, dataType = ''properties''\<rparr>))) =
     \<lparr>data = [\<lparr>order_key = ''a1''\<rparr>], loading = False,
       error = Some ''Unsupported data type: notes''\<rparr> \<and>
   data (fst (fetchData backend_one_record True
          \<lparr>projectId = Some ''p1'', shareId = None, dataType = ''notes''\<rparr>
          (fst (useProjectData backend_one_record True
             \<lparr>projectId = Some ''p1'', shareId = None, dataType = ''properties''\<rparr>)))) \<noteq> []"
  by (simp add: useProjectData_def fetchData_def await_result_def choose_request_def
      isPublicMode_def isAuthenticatedMode_def authenticated_request_def catch_finally_def
      orderable_def initial_state_def sortByOrderKey_def recognized_def
      backend_one_record_def)

text \<open>
  C5, amended. A run of the fetch with a tag outside the six recognized ones, while an
  identifier is usable, issues no backend call, sets the error message
  "Unsupported data type: " followed by the tag, clears loading, and leaves the data as it
  was before the run. When the hook is first used, that data is empty.
\<close>

theorem useProjectData_unsupported:
  assumes "isPublicMode opts \<or> isAuthenticatedMode user opts"
    and "\<not> recognized (dataType opts)"
  shows "fetchData supabase user opts st =
           (st\<lparr>error := Some (''Unsupported data type: '' @ dataType opts),
               loading := False\<rparr>, []) \<and>
         useProjectData supabase user opts =
           (\<lparr>data = [], loading = False,
             error = Some (''Unsupported data type: '' @ dataType opts)\<rparr>, [])"
proof -
  have run: "fetchData supabase user opts s =
      (s\<lparr>error := Some (''Unsupported data type: '' @ dataType opts), loading := False\<rparr>, [])"
    for s :: "'a row_scheme hook_state"
    using fetchData_request_throws [OF assms(1) choose_request_unsupported [OF assms]]
    by simp
  show ?thesis
    by (simp add: useProjectData_def run initial_state_def)
qed

theorem useProjectData_unsupported_witness:
  "fetchData (\<lambda>c. Inr \<lparr>resp_error = None, resp_data = Some [\<lparr>order_key = ''a0''\<rparr>]\<rparr>) False
     \<lparr>projectId = None, shareId = Some ''s1'', dataType = ''notes''\<rparr>
     \<lparr>data = [\<lparr>order_key = ''a1''\<rparr>], loading = True, error = None\<rparr> =
   (\<lparr>data = [\<lparr>order_key = ''a1''\<rparr>], loading = False,
      error = Some ''Unsupported data type: notes''\<rparr>, []) \<and>
   useProjectData (\<lambda>c. Inr \<lparr>resp_error = None, resp_data = Some [\<lparr>order_key = ''a0''\<rparr>]\<rparr>) False
     \<lparr>projectId = None, shareId = Some ''s1'', dataType = ''notes''\<rparr> =
   (\<lparr>data = [], loading = False, error = Some ''Unsupported data type: notes''\<rparr>, [])"
  using useProjectData_unsupported
    [of "\<lparr>projectId = None, shareId = Some ''s1'', dataType = ''notes''\<rparr>" False
        "\<lambda>c. Inr \<lparr>resp_error = None, resp_data = Some [\<lparr>order_key = ''a0''\<rparr>]\<rparr>"
        "\<lparr>data = [\<lparr>order_key = ''a1''\<rparr>], loading = True, error = None\<rparr>"]
  by (simp add: isPublicMode_def recognized_def)

text \<open>
  C8. In authenticated mode (no usable share identifier, a usable project identifier and
  a signed-in user) the run issues exactly one query, against the table fixed for the tag,
  filtered by the project identifier, with the sort fixed for the tag: updates by
  \<open>update_date\<close> descending; properties, roadmap and documents by \<open>order_key\<close> ascending;
  requirements by \<open>category\<close> (no direction given); tour availability by
  \<open>proposed_datetime\<close> ascending.
\<close>

theorem fetchData_authenticated_query:
  assumes "\<not> isPublicMode opts"
    and "isAuthenticatedMode user opts"
    and "projectId opts = Some pid"
  shows "(dataType opts = ''updates'' \<longrightarrow>
            snd (fetchData supabase user opts st) =
              [Select ''project_updates'' pid ''update_date'' (Some False)]) \<and>
         (dataType opts = ''properties'' \<longrightarrow>
            snd (fetchData supabase user opts st) =
              [Select ''properties'' pid ''order_key'' (Some True)]) \<and>
         (dataType opts = ''roadmap'' \<longrightarrow>
            snd (fetchData supabase user opts st) =
              [Select ''project_roadmap'' pid ''order_key'' (Some True)]) \<and>
         (dataType opts = ''documents'' \<longrightarrow>
            snd (fetchData supabase user opts st) =
              [Select ''project_documents'' pid ''order_key'' (Some True)]) \<and>
         (dataType opts = ''requirements'' \<longrightarrow>
            snd (fetchData supabase user opts st) =
              [Select ''client_requirements'' pid ''category'' None]) \<and>
         (dataType opts = ''client_tour_availability'' \<longrightarrow>
            snd (fetchData supabase user opts st) =
              [Select ''client_tour_availability'' pid ''proposed_datetime'' (Some True)])"
  using assms(1,2)
  by (simp add: fetchData_calls await_result_calls choose_request_authenticated [OF assms]
      authenticated_request_def)

theorem fetchData_authenticated_query_witness:
  "snd (fetchData (\<lambda>c. Inl NonError) True
          \<lparr>projectId = Some ''p1'', shareId = None, dataType = ''updates''\<rparr>
          (initial_state :: row hook_state)) =
     [Select ''project_updates'' ''p1'' ''update_date'' (Some False)] \<and>
   snd (fetchData (\<lambda>c. Inl NonError) True
          \<lparr>projectId = Some ''p1'', shareId = None, dataType = ''properties''\<rparr>
          (initial_state :: row hook_state)) =
     [Select ''properties'' ''p1'' ''order_key'' (Some True)] \<and>
   snd (fetchData (\<lambda>c. Inl NonError) True
          \<lparr>projectId = Some ''p1'', shareId = None, dataType = ''roadmap''\<rparr>
          (initial_state :: row hook_state)) =
     [Select ''project_roadmap'' ''p1'' ''order_key'' (Some True)] \<and>
   snd (fetchData (\<lambda>c. Inl NonError) True
          \<lparr>projectId = Some ''p1'', shareId = None, dataType = ''documents''\<rparr>
          (initial_state :: row hook_state)) =
     [Select ''project_documents'' ''p1'' ''order_key'' (Some True)] \<and>
   snd (fetchData (\<lambda>c. Inl NonError) True
          \<lparr>projectId = Some ''p1'', shareId = None, dataType = ''requirements''\<rparr>
          (initial_state :: row hook_state)) =
     [Select ''client_requirements'' ''p1'' ''category'' None] \<and>
   snd (fetchData (\<lambda>c. Inl NonError) True
          \<lparr>projectId = Some ''p1'', shareId = None, dataType = ''client_tour_availability''\<rparr>
          (initial_state :: row hook_state)) =
     [Select ''client_tour_availability'' ''p1'' ''proposed_datetime'' (Some True)]"
  using fetchData_authenticated_query
      [of "\<lparr>projectId = Some ''p1'', shareId = None, dataType = ''updates''\<rparr>" True "''p1''"
          "\<lambda>c. Inl NonError" "initial_state :: row hook_state"]
    fetchData_authenticated_query
      [of "\<lparr>projectId = Some ''p1'', shareId = None, dataType = ''properties''\<rparr>" True "''p1''"
          "\<lambda>c. Inl NonError" "initial_state :: row hook_state"]
    fetchData_authenticated_query
      [of "\<lparr>projectId = Some ''p1'', shareId = None, dataType = ''roadmap''\<rparr>" True "''p1''"
          "\<lambda>c. Inl NonError" "initial_state :: row hook_state"]
    fetchData_authenticated_query
      [of "\<lparr>projectId = Some ''p1'', shareId = None, dataType = ''documents''\<rparr>" True "''p1''"
          "\<lambda>c. Inl NonError" "initial_state :: row hook_state"]
    fetchData_authenticated_query
      [of "\<lparr>projectId = Some ''p1'', shareId = None, dataType = ''requirements''\<rparr>" True "''p1''"
          "\<lambda>c. Inl NonError" "initial_state :: row hook_state"]
    fetchData_authenticated_query
      [of "\<lparr>projectId = Some ''p1'', shareId = None, dataType = ''client_tour_availability''\<rparr>" True "''p1''"
          "\<lambda>c. Inl NonError" "initial_state :: row hook_state"]
  by (simp add: isPublicMode_def isAuthenticatedMode_def)

text \<open>
  C9. When a usable share identifier is supplied, public mode wins whether or not a
  usable project identifier and a user are supplied as well: the run never issues a
  direct table query, and for each tag of the option type it issues exactly one remote
  procedure call, carrying the share identifier.
\<close>

theorem fetchData_public_precedence:
  assumes "shareId opts = Some sid"
    and "sid \<noteq> []"
  shows "(\<forall>t p c d. Select t p c d \<notin> set (snd (fetchData supabase user opts st))) \<and>
         (recognized (dataType opts) \<longrightarrow>
            (\<exists>f. snd (fetchData supabase user opts st) = [Rpc f sid]))"
  using public_request_unsupported [of "dataType opts" sid]
    public_request_recognized [of "dataType opts" sid] assms
  by (cases "recognized (dataType opts)")
     (auto simp: fetchData_calls await_result_calls choose_request_public [OF assms]
        isPublicMode_def)

theorem fetchData_public_precedence_witness:
  "isAuthenticatedMode True
     \<lparr>projectId = Some ''p1'', shareId = Some ''s1'', dataType = ''roadmap''\<rparr> \<and>
   snd (fetchData (\<lambda>c. Inl NonError) True
          \<lparr>projectId = Some ''p1'', shareId = Some ''s1'', dataType = ''roadmap''\<rparr>
          (initial_state :: row hook_state)) =
     [Rpc ''get_public_project_roadmap'' ''s1''] \<and>
   (\<exists>f. snd (fetchData (\<lambda>c. Inl NonError) True
          \<lparr>projectId = Some ''p1'', shareId = Some ''s1'', dataType = ''roadmap''\<rparr>
          (initial_state :: row hook_state)) = [Rpc f ''s1'']) \<and>
   (\<forall>t p c d. Select t p c d \<notin>
      set (snd (fetchData (\<lambda>c. Inl NonError) True
          \<lparr>projectId = Some ''p1'', shareId = Some ''s1'', dataType = ''roadmap''\<rparr>
          (initial_state :: row hook_state))))"
proof -
  let ?opts = "\<lparr>projectId = Some ''p1'', shareId = Some ''s1'', dataType = ''roadmap''\<rparr>"
  let ?calls = "snd (fetchData (\<lambda>c. Inl NonError) True ?opts (initial_state :: row hook_state))"
  have both: "isAuthenticatedMode True ?opts"
    by (simp add: isAuthenticatedMode_def)
  have calls: "?calls = [Rpc ''get_public_project_roadmap'' ''s1'']"
    by (simp add: fetchData_calls await_result_calls choose_request_def isPublicMode_def
        public_request_def)
  from fetchData_public_precedence
    [of ?opts "''s1''" "\<lambda>c. Inl NonError" True "initial_state :: row hook_state"]
  have "(\<forall>t p c d. Select t p c d \<notin> set ?calls) \<and> (\<exists>f. ?calls = [Rpc f ''s1''])"
    by (simp add: recognized_def)
  with both calls show ?thesis by blast
qed

text \<open>
  C10. Every fetch attempt that fails leaves the data as it was before the attempt and
  only sets the error message and clears loading. The failures are: the backend rejects
  the call the run issued; the backend answers it with an error; the tag is unsupported
  while an identifier is usable. In each case the state afterwards is the state before
  with the error message of that failure (its message when it is an \<open>Error\<close>, "An error
  occurred" otherwise) and loading cleared. Conversely, whenever a run ends with an error
  message set, the state afterwards is the state before with only that message set and
  loading cleared.
\<close>

theorem fetchData_error_keeps_data:
  "(snd (fetchData supabase user opts st) = [c] \<and> supabase c = Inl e \<longrightarrow>
      fst (fetchData supabase user opts st) =
        st\<lparr>error := Some (error_message e), loading := False\<rparr> \<and>
      data (fst (fetchData supabase user opts st)) = data st) \<and>
   (snd (fetchData supabase user opts st) = [c] \<and> supabase c = Inr r \<and>
    resp_error r = Some e \<longrightarrow>
      fst (fetchData supabase user opts st) =
        st\<lparr>error := Some (error_message e), loading := False\<rparr> \<and>
      data (fst (fetchData supabase user opts st)) = data st) \<and>
   ((isPublicMode opts \<or> isAuthenticatedMode user opts) \<and> \<not> recognized (dataType opts) \<longrightarrow>
      fst (fetchData supabase user opts st) =
        st\<lparr>error := Some (''Unsupported data type: '' @ dataType opts), loading := False\<rparr> \<and>
      data (fst (fetchData supabase user opts st)) = data st) \<and>
   (error (fst (fetchData supabase user opts st)) = Some m \<longrightarrow>
      fst (fetchData supabase user opts st) = st\<lparr>error := Some m, loading := False\<rparr> \<and>
      data (fst (fetchData supabase user opts st)) = data st)"
proof (intro conjI impI)
  assume a: "snd (fetchData supabase user opts st) = [c] \<and> supabase c = Inl e"
  then have i: "(isPublicMode opts \<or> isAuthenticatedMode user opts) \<and>
      choose_request user opts = Inr (Some c)"
    using fetchData_issued by blast
  from a i have run: "fetchData supabase user opts st =
      (st\<lparr>error := Some (error_message e), loading := False\<rparr>, [c])"
    by (intro fetchData_backend_rejects) auto
  show "fst (fetchData supabase user opts st) =
      st\<lparr>error := Some (error_message e), loading := False\<rparr>"
    by (simp add: run)
  show "data (fst (fetchData supabase user opts st)) = data st"
    by (simp add: run)
next
  assume a: "snd (fetchData supabase user opts st) = [c] \<and> supabase c = Inr r \<and>
      resp_error r = Some e"
  then have i: "(isPublicMode opts \<or> isAuthenticatedMode user opts) \<and>
      choose_request user opts = Inr (Some c)"
    using fetchData_issued by blast
  from a i have run: "fetchData supabase user opts st =
      (st\<lparr>error := Some (error_message e), loading := False\<rparr>, [c])"
    by (intro fetchData_backend_error [where r = r]) auto
  show "fst (fetchData supabase user opts st) =
      st\<lparr>error := Some (error_message e), loading := False\<rparr>"
    by (simp add: run)
  show "data (fst (fetchData supabase user opts st)) = data st"
    by (simp add: run)
next
  assume a: "(isPublicMode opts \<or> isAuthenticatedMode user opts) \<and>
      \<not> recognized (dataType opts)"
  then have "choose_request user opts = Inl (Error (''Unsupported data type: '' @ dataType opts))"
    by (intro choose_request_unsupported) auto
  with a have run: "fetchData supabase user opts st =
      (st\<lparr>error := Some (error_message (Error (''Unsupported data type: '' @ dataType opts))),
          loading := False\<rparr>, [])"
    by (intro fetchData_request_throws) auto
  show "fst (fetchData supabase user opts st) =
      st\<lparr>error := Some (''Unsupported data type: '' @ dataType opts), loading := False\<rparr>"
    by (simp add: run)
  show "data (fst (fetchData supabase user opts st)) = data st"
    by (simp add: run)
next
  assume a: "error (fst (fetchData supabase user opts st)) = Some m"
  then show "fst (fetchData supabase user opts st) = st\<lparr>error := Some m, loading := False\<rparr>"
    by (auto simp: fetchData_def Let_def catch_finally_def
        split: prod.splits sum.splits option.splits if_splits)
  from a show "data (fst (fetchData supabase user opts st)) = data st"
    by (auto simp: fetchData_def Let_def catch_finally_def
        split: prod.splits sum.splits option.splits if_splits)
qed

theorem fetchData_error_keeps_data_witness:
  "fst (fetchData (\<lambda>c. Inl NonError)
          True \<lparr>projectId = Some ''p1'', shareId = None, dataType = ''documents''\<rparr>
          \<lparr>data = [\<lparr>order_key = ''a1''\<rparr>, \<lparr>order_key = ''a0''\<rparr>], loading = False, error = None\<rparr>) =
     \<lparr>data = [\<lparr>order_key = ''a1''\<rparr>, \<lparr>order_key = ''a0''\<rparr>], loading = False,
       error = Some ''An error occurred''\<rparr> \<and>
   fst (fetchData (\<lambda>c. Inr \<lparr>resp_error = Some (Error ''permission denied''), resp_data = None\<rparr>)
          True \<lparr>projectId = Some ''p1'', shareId = None, dataType = ''documents''\<rparr>
          \<lparr>data = [\<lparr>order_key = ''a1''\<rparr>, \<lparr>order_key = ''a0''\<rparr>], loading = False, error = None\<rparr>) =
     \<lparr>data = [\<lparr>order_key = ''a1''\<rparr>, \<lparr>order_key = ''a0''\<rparr>], loading = False,
       error = Some ''permission denied''\<rparr> \<and>
   fst (fetchData (\<lambda>c. Inl NonError)
          True \<lparr>projectId = Some ''p1'', shareId = None, dataType = ''notes''\<rparr>
          \<lparr>data = [\<lparr>order_key = ''a1''\<rparr>, \<lparr>order_key = ''a0''\<rparr>], loading = False, error = None\<rparr>) =
     \<lparr>data = [\<lparr>order_key = ''a1''\<rparr>, \<lparr>order_key = ''a0''\<rparr>], loading = False,
       error = Some ''Unsupported data type: notes''\<rparr> \<and>
   fst (fetchData (\<lambda>c. Inl NonError)
          True \<lparr>projectId = Some ''p1'', shareId = Some ''s1'', dataType = ''roadmap''\<rparr>
          \<lparr>data = [\<lparr>order_key = ''a1''\<rparr>, \<lparr>order_key = ''a0''\<rparr>], loading = True,
            error = Some ''stale''\<rparr>) =
     \<lparr>data = [\<lparr>order_key = ''a1''\<rparr>, \<lparr>order_key = ''a0''\<rparr>], loading = False,
       error = Some ''An error occurred''\<rparr>"
proof -
  let ?down = "\<lambda>c :: backend_call. (Inl NonError :: thrown + row response)"
  let ?r = "\<lparr>resp_error = Some (Error ''permission denied''),
             resp_data = (None :: row list option)\<rparr>"
  let ?denied = "\<lambda>c :: backend_call. (Inr ?r :: thrown + row response)"
  let ?docs = "\<lparr>projectId = Some ''p1'', shareId = None, dataType = ''documents''\<rparr>"
  let ?notes = "\<lparr>projectId = Some ''p1'', shareId = None, dataType = ''notes''\<rparr>"
  let ?both = "\<lparr>projectId = Some ''p1'', shareId = Some ''s1'', dataType = ''roadmap''\<rparr>"
  let ?st = "\<lparr>data = [\<lparr>order_key = ''a1''\<rparr>, \<lparr>order_key = ''a0''\<rparr>], loading = False,
              error = None\<rparr>"
  let ?st' = "\<lparr>data = [\<lparr>order_key = ''a1''\<rparr>, \<lparr>order_key = ''a0''\<rparr>], loading = True,
               error = Some ''stale''\<rparr>"
  let ?c = "Select ''project_documents'' ''p1'' ''order_key'' (Some True)"
  have issued: "snd (fetchData ?down True ?docs ?st) = [?c]"
    and issued': "snd (fetchData ?denied True ?docs ?st) = [?c]"
    by (simp_all add: fetchData_calls await_result_calls choose_request_def
        isPublicMode_def isAuthenticatedMode_def authenticated_request_def)
  have mode: "isPublicMode ?notes \<or> isAuthenticatedMode True ?notes"
    and tag: "\<not> recognized (dataType ?notes)"
    by (simp_all add: isAuthenticatedMode_def recognized_def)
  have ended: "error (fst (fetchData ?down True ?both ?st')) = Some ''An error occurred''"
    by (simp add: fetchData_def await_result_def choose_request_def isPublicMode_def
        public_request_def catch_finally_def)
  from fetchData_error_keeps_data
    [where supabase = ?down and user = True and opts = ?docs and st = ?st and c = ?c
       and e = NonError and r = ?r and m = "''none''"]
    issued
  have rejected: "fst (fetchData ?down True ?docs ?st) =
      ?st\<lparr>error := Some ''An error occurred'', loading := False\<rparr>"
    by simp
  from fetchData_error_keeps_data
    [where supabase = ?denied and user = True and opts = ?docs and st = ?st and c = ?c
       and e = "Error ''permission denied''" and r = ?r and m = "''none''"]
    issued'
  have answered: "fst (fetchData ?denied True ?docs ?st) =
      ?st\<lparr>error := Some ''permission denied'', loading := False\<rparr>"
    by simp
  from fetchData_error_keeps_data
    [where supabase = ?down and user = True and opts = ?notes and st = ?st and c = ?c
       and e = NonError and r = ?r and m = "''none''"]
    mode tag
  have unsupported: "fst (fetchData ?down True ?notes ?st) =
      ?st\<lparr>error := Some ''Unsupported data type: notes'', loading := False\<rparr>"
    by simp
  from fetchData_error_keeps_data
    [where supabase = ?down and user = True and opts = ?both and st = ?st' and c = ?c
       and e = NonError and r = ?r and m = "''An error occurred''"]
    ended
  have outcome: "fst (fetchData ?down True ?both ?st') =
      ?st'\<lparr>error := Some ''An error occurred'', loading := False\<rparr>"
    by simp
  from rejected answered unsupported outcome show ?thesis
    by simp
qed

section \<open>Properties of the page controller\<close>

subsection \<open>Splicing and moving\<close>

lemma splice_arr_take_one:
  "i < length xs \<Longrightarrow> splice_arr xs (int i) 1 [] = ([xs ! i], take i xs @ drop (Suc i) xs)"
  by (simp add: splice_arr_def splice_start_def Let_def min_def drop_Suc hd_drop_conv_nth
      take_Suc)

lemma splice_arr_insert:
  "j \<le> length ys \<Longrightarrow> splice_arr ys (int j) 0 [x] = ([], take j ys @ x # drop j ys)"
  by (simp add: splice_arr_def splice_start_def Let_def min_def)

lemma length_move:
  "i < length xs \<Longrightarrow> j < length xs \<Longrightarrow> length (move i j xs) = length xs"
  by (auto simp: move_def Let_def)

lemma move_nth_destination:
  assumes "i < length xs" "j < length xs"
  shows "move i j xs ! j = xs ! i"
proof -
  have "length (take j (take i xs @ drop (Suc i) xs)) = j"
    using assms by auto
  then show ?thesis
    unfolding move_def Let_def by (metis nth_append_length)
qed

lemma mset_move:
  assumes "i < length xs"
  shows "mset (move i j xs) = mset xs"
proof -
  define rest where "rest = take i xs @ drop (Suc i) xs"
  have "mset (move i j xs) = add_mset (xs ! i) (mset rest)"
    unfolding move_def Let_def rest_def [symmetric]
    using mset_append [of "take j rest" "drop j rest"] by simp
  also have "\<dots> = mset (take i xs @ xs ! i # drop (Suc i) xs)"
    by (simp add: rest_def)
  also have "\<dots> = mset xs"
    using id_take_nth_drop [OF assms] by simp
  finally show ?thesis .
qed

lemma updatedOrder_valid:
  assumes "i < length cards" "j < length cards"
  shows "updatedOrder cards (int i) (int j) =
           map (\<lambda>(k, c). rekey k (Some c)) (enumerate 0 (move i j cards))"
proof -
  let ?xs = "map Some cards"
  let ?rest = "take i ?xs @ drop (Suc i) ?xs"
  have first: "splice_arr ?xs (int i) 1 [] = ([?xs ! i], ?rest)"
    using assms splice_arr_take_one [of i ?xs] by simp
  have second: "splice_arr ?rest (int j) 0 [?xs ! i] =
      ([], take j ?rest @ ?xs ! i # drop j ?rest)"
    using assms by (intro splice_arr_insert) auto
  have moved: "take j ?rest @ ?xs ! i # drop j ?rest = map Some (move i j cards)"
    using assms by (simp add: move_def Let_def take_map drop_map)
  show ?thesis
    unfolding updatedOrder_def first using second moved
    by (simp add: enumerate_eq_zip map_zip_map2 del: upt_Suc)
qed

lemma toString_digits:
  "map toString [0, 1, 2, 3, 4, 9, 10, 27, 105] =
     [''0'', ''1'', ''2'', ''3'', ''4'', ''9'', ''10'', ''27'', ''105'']"
  by code_simp

subsection \<open>Copying to the clipboard\<close>

lemma copyToClipboard_effects:
  "set (snd (copyToClipboard env t)) \<subseteq> {ClipboardWriteText t, ExecCommandCopy t}"
  by (auto simp: copyToClipboard_def Let_def split: option.splits)

lemma copyToClipboard_attempts:
  "ClipboardWriteText t \<in> set (snd (copyToClipboard env t)) \<or>
   ExecCommandCopy t \<in> set (snd (copyToClipboard env t))"
  by (auto simp: copyToClipboard_def Let_def split: option.splits)

lemma copyToClipboard_fallback:
  "\<not> (has_clipboard env \<and> writeText env t) \<Longrightarrow>
   ExecCommandCopy t \<in> set (snd (copyToClipboard env t)) \<and>
   fst (copyToClipboard env t) = (execCommand_copy env t = Some True)"
  by (auto simp: copyToClipboard_def Let_def split: option.splits)

lemma handleShareProject_existing:
  "project st = Some p \<Longrightarrow> user \<Longrightarrow> public_share_id p = Some sid \<Longrightarrow> sid \<noteq> [] \<Longrightarrow>
   handleShareProject env user st = share_existing env st sid"
  by (simp add: handleShareProject_def)

lemma handleShareProject_fresh:
  "project st = Some p \<Longrightarrow> user \<Longrightarrow> \<not> truthy (public_share_id p) \<Longrightarrow>
   handleShareProject env user st = share_fresh env st p"
  by (cases "public_share_id p") (simp_all add: handleShareProject_def)

subsection \<open>The claims about the page controller\<close>

text \<open>
  C1. For a card list of length N and positions i and j below N, the reorder handler
  sets the displayed card order to the list obtained by removing the element at index i
  and reinserting it at index j, in which the element at display position k carries the
  order key "a" followed by the decimal numeral of k; nothing else of a card changes.
\<close>

theorem handleCardReorder_valid:
  assumes "i < length (cardOrder st)"
    and "j < length (cardOrder st)"
  shows "cardOrder (fst (handleCardReorder st (int i) (int j))) =
           map (\<lambda>k. (move i j (cardOrder st) ! k)(''order_key'' \<mapsto> ''a'' @ toString k))
             [0..<length (cardOrder st)]"
proof -
  have "map (\<lambda>(k, c). rekey k (Some c)) (enumerate 0 (move i j (cardOrder st))) =
        map (\<lambda>k. (move i j (cardOrder st) ! k)(''order_key'' \<mapsto> ''a'' @ toString k))
          [0..<length (cardOrder st)]"
    using assms
    by (intro nth_equalityI) (simp_all add: length_move nth_enumerate_eq rekey_def)
  then show ?thesis
    using assms by (simp add: handleCardReorder_def setCardOrder_def Let_def updatedOrder_valid)
qed

theorem handleCardReorder_valid_witness:
  "map (\<lambda>c. (c ''id'', c ''order_key''))
     (cardOrder (fst (handleCardReorder
        \<lparr>project = (None :: ProjectData option), cardOrder = DEFAULT_CARD_ORDER,
          copySuccess = False\<rparr> 0 2))) =
   [(Some ''availability'', Some ''a0''), (Some ''properties'', Some ''a1''),
    (Some ''updates'', Some ''a2''), (Some ''roadmap'', Some ''a3''),
    (Some ''documents'', Some ''a4'')] \<and>
   map (\<lambda>c. (c ''id'', c ''order_key''))
     (cardOrder (fst (handleCardReorder
        \<lparr>project = (None :: ProjectData option), cardOrder = DEFAULT_CARD_ORDER,
          copySuccess = False\<rparr> 4 1))) =
   [(Some ''updates'', Some ''a0''), (Some ''documents'', Some ''a1''),
    (Some ''availability'', Some ''a2''), (Some ''properties'', Some ''a3''),
    (Some ''roadmap'', Some ''a4'')]"
proof -
  let ?st = "\<lparr>project = (None :: ProjectData option), cardOrder = DEFAULT_CARD_ORDER,
              copySuccess = False\<rparr>"
  have len: "length DEFAULT_CARD_ORDER = 5"
    by (simp add: DEFAULT_CARD_ORDER_def)
  have i0: "0 < length (cardOrder ?st)" and i1: "1 < length (cardOrder ?st)"
    and i2: "2 < length (cardOrder ?st)" and i4: "4 < length (cardOrder ?st)"
    by (simp_all add: DEFAULT_CARD_ORDER_def)
  have keys: "map toString [0, 1, 2, 3, 4] = [''0'', ''1'', ''2'', ''3'', ''4'']"
    by code_simp
  have moved: "move 0 2 DEFAULT_CARD_ORDER =
      [DEFAULT_CARD_ORDER ! 1, DEFAULT_CARD_ORDER ! 2, DEFAULT_CARD_ORDER ! 0,
       DEFAULT_CARD_ORDER ! 3, DEFAULT_CARD_ORDER ! 4]"
    and moved': "move 4 1 DEFAULT_CARD_ORDER =
      [DEFAULT_CARD_ORDER ! 0, DEFAULT_CARD_ORDER ! 4, DEFAULT_CARD_ORDER ! 1,
       DEFAULT_CARD_ORDER ! 2, DEFAULT_CARD_ORDER ! 3]"
    by (simp_all add: move_def DEFAULT_CARD_ORDER_def)
  have range: "[0..<5] = [0, 1, 2, 3, 4 :: nat]"
    by (simp add: upt_rec)
  from handleCardReorder_valid [OF i0 i2]
  have "cardOrder (fst (handleCardReorder ?st 0 2)) =
      map (\<lambda>k. (move 0 2 DEFAULT_CARD_ORDER ! k)(''order_key'' \<mapsto> ''a'' @ toString k))
        [0, 1, 2, 3, 4]"
    by (simp add: len range)
  then have first: "map (\<lambda>c. (c ''id'', c ''order_key'')) (cardOrder (fst (handleCardReorder ?st 0 2))) =
      [(Some ''availability'', Some ''a0''), (Some ''properties'', Some ''a1''),
       (Some ''updates'', Some ''a2''), (Some ''roadmap'', Some ''a3''),
       (Some ''documents'', Some ''a4'')]"
    using keys unfolding moved by (simp add: DEFAULT_CARD_ORDER_def)
  from handleCardReorder_valid [OF i4 i1]
  have "cardOrder (fst (handleCardReorder ?st 4 1)) =
      map (\<lambda>k. (move 4 1 DEFAULT_CARD_ORDER ! k)(''order_key'' \<mapsto> ''a'' @ toString k))
        [0, 1, 2, 3, 4]"
    by (simp add: len range)
  then have second: "map (\<lambda>c. (c ''id'', c ''order_key'')) (cardOrder (fst (handleCardReorder ?st 4 1))) =
      [(Some ''updates'', Some ''a0''), (Some ''documents'', Some ''a1''),
       (Some ''availability'', Some ''a2''), (Some ''properties'', Some ''a3''),
       (Some ''roadmap'', Some ''a4'')]"
    using keys unfolding moved' by (simp add: DEFAULT_CARD_ORDER_def)
  from first second show ?thesis ..
qed

text \<open>
  C2. On a share invocation for a project without a share identifier (signed-in user,
  the generator returning the identifier u): when the copy of the URL built from u
  succeeds, the handler's effects are, in this order, the generation, the copy, the timer
  for the "copied" mark and exactly one update of the project record with u, with no
  alert; and when that update returns an error or throws, the page state is the old one
  with only the "copied" mark set. When the copy does not succeed, no update is attempted.
\<close>

theorem handleShareProject_copy_before_persist:
  assumes "project st = Some p"
    and "user"
    and "\<not> truthy (public_share_id p)"
    and "randomUUID env = Some u"
  shows "(fst (copyToClipboard env (origin env @ ''/share/'' @ u)) \<longrightarrow>
            snd (handleShareProject env user st) =
              RandomUUID # snd (copyToClipboard env (origin env @ ''/share/'' @ u)) @
              [ResetCopySuccessLater, ProjectsUpdateShareId u (project_id p)] \<and>
            (\<forall>m. Alert m \<notin> set (snd (handleShareProject env user st))) \<and>
            (projects_update env u (project_id p) \<noteq> UpdateOk \<longrightarrow>
               fst (handleShareProject env user st) = st\<lparr>copySuccess := True\<rparr>)) \<and>
         (\<not> fst (copyToClipboard env (origin env @ ''/share/'' @ u)) \<longrightarrow>
            (\<forall>s pid. ProjectsUpdateShareId s pid \<notin> set (snd (handleShareProject env user st))))"
  using assms(4) copyToClipboard_effects [of env "origin env @ ''/share/'' @ u"]
  unfolding handleShareProject_fresh [OF assms(1-3)]
  by (auto simp: share_fresh_def publicUrl_def Let_def
      split: prod.splits update_outcome.splits)

theorem handleShareProject_copy_before_persist_witness:
  "handleShareProject
     \<lparr>origin = ''https://app.example'', has_clipboard = True, writeText = (\<lambda>t. True),
       execCommand_copy = (\<lambda>t. None), randomUUID = Some ''u-1'',
       projects_update = (\<lambda>s pid. UpdateThrows)\<rparr>
     True
     \<lparr>project = Some \<lparr>project_id = ''p1'', public_share_id = None\<rparr>,
       cardOrder = DEFAULT_CARD_ORDER, copySuccess = False\<rparr> =
   (\<lparr>project = Some \<lparr>project_id = ''p1'', public_share_id = None\<rparr>,
      cardOrder = DEFAULT_CARD_ORDER, copySuccess = True\<rparr>,
    [RandomUUID, ClipboardWriteText ''https://app.example/share/u-1'', ResetCopySuccessLater,
     ProjectsUpdateShareId ''u-1'' ''p1'']) \<and>
   (\<forall>s pid. ProjectsUpdateShareId s pid \<notin> set (snd (handleShareProject
     \<lparr>origin = ''https://app.example'', has_clipboard = False, writeText = (\<lambda>t. True),
       execCommand_copy = (\<lambda>t. Some False), randomUUID = Some ''u-1'',
       projects_update = (\<lambda>s pid. UpdateOk)\<rparr>
     True
     \<lparr>project = Some \<lparr>project_id = ''p1'', public_share_id = Some []\<rparr>,
       cardOrder = DEFAULT_CARD_ORDER, copySuccess = False\<rparr>)))"
proof -
  let ?env = "\<lparr>origin = ''https://app.example'', has_clipboard = True, writeText = (\<lambda>t. True),
       execCommand_copy = (\<lambda>t. None), randomUUID = Some ''u-1'',
       projects_update = (\<lambda>s pid. UpdateThrows)\<rparr>"
  let ?p = "\<lparr>project_id = ''p1'', public_share_id = None\<rparr>"
  let ?st = "\<lparr>project = Some ?p, cardOrder = DEFAULT_CARD_ORDER, copySuccess = False\<rparr>"
  let ?env' = "\<lparr>origin = ''https://app.example'', has_clipboard = False,
       writeText = (\<lambda>t. True), execCommand_copy = (\<lambda>t. Some False),
       randomUUID = Some ''u-1'', projects_update = (\<lambda>s pid. UpdateOk)\<rparr>"
  let ?p' = "\<lparr>project_id = ''p1'', public_share_id = Some []\<rparr>"
  let ?st' = "\<lparr>project = Some ?p', cardOrder = DEFAULT_CARD_ORDER, copySuccess = False\<rparr>"
  have copy: "copyToClipboard ?env (origin ?env @ ''/share/'' @ ''u-1'') =
      (True, [ClipboardWriteText ''https://app.example/share/u-1''])"
    and copy': "\<not> fst (copyToClipboard ?env' (origin ?env' @ ''/share/'' @ ''u-1''))"
    by (simp_all add: copyToClipboard_def)
  have h1: "project ?st = Some ?p" and h2: True and h3: "\<not> truthy (public_share_id ?p)"
    and h4: "randomUUID ?env = Some ''u-1''"
    and k1: "project ?st' = Some ?p'" and k3: "\<not> truthy (public_share_id ?p')"
    and k4: "randomUUID ?env' = Some ''u-1''"
    by simp_all
  from handleShareProject_copy_before_persist [OF h1 h2 h3 h4]
  have "snd (handleShareProject ?env True ?st) =
      [RandomUUID, ClipboardWriteText ''https://app.example/share/u-1'', ResetCopySuccessLater,
       ProjectsUpdateShareId ''u-1'' ''p1'']"
    and "fst (handleShareProject ?env True ?st) = ?st\<lparr>copySuccess := True\<rparr>"
    unfolding copy by simp_all
  then have succeeded: "handleShareProject ?env True ?st =
      (\<lparr>project = Some ?p, cardOrder = DEFAULT_CARD_ORDER, copySuccess = True\<rparr>,
       [RandomUUID, ClipboardWriteText ''https://app.example/share/u-1'', ResetCopySuccessLater,
        ProjectsUpdateShareId ''u-1'' ''p1''])"
    by (simp add: prod_eq_iff)
  from handleShareProject_copy_before_persist [OF k1 h2 k3 k4] copy'
  have failed: "\<forall>s pid. ProjectsUpdateShareId s pid
      \<notin> set (snd (handleShareProject ?env' True ?st'))"
    by blast
  from succeeded failed show ?thesis ..
qed

text \<open>
  C6. On a share invocation (a project, a signed-in user, and the URL built from the
  existing identifier or from the generated one) in which the clipboard API is missing or
  rejects the write, the legacy copy is attempted on the same URL; if that does not
  succeed either, the page state is unchanged, the handler ends with the alert that
  copying failed, and no update of the project record is attempted.
\<close>

theorem handleShareProject_clipboard_failure:
  assumes "project st = Some p"
    and "user"
    and "(truthy (public_share_id p) \<and> public_share_id p = Some sid) \<or>
         (\<not> truthy (public_share_id p) \<and> randomUUID env = Some sid)"
    and "\<not> (has_clipboard env \<and> writeText env (origin env @ ''/share/'' @ sid))"
  shows "ExecCommandCopy (origin env @ ''/share/'' @ sid)
           \<in> set (snd (handleShareProject env user st)) \<and>
         (execCommand_copy env (origin env @ ''/share/'' @ sid) \<noteq> Some True \<longrightarrow>
            fst (handleShareProject env user st) = st \<and>
            last (snd (handleShareProject env user st)) = Alert copy_failed \<and>
            (\<forall>s pid. ProjectsUpdateShareId s pid
               \<notin> set (snd (handleShareProject env user st))))"
  using assms(3)
proof
  assume a: "truthy (public_share_id p) \<and> public_share_id p = Some sid"
  then have "sid \<noteq> []" by auto
  with a assms(1,2) have e: "handleShareProject env user st = share_existing env st sid"
    by (simp add: handleShareProject_existing)
  show ?thesis
    using copyToClipboard_fallback [OF assms(4)]
      copyToClipboard_effects [of env "origin env @ ''/share/'' @ sid"]
    unfolding e
    by (auto simp: share_existing_def publicUrl_def split: prod.splits)
next
  assume a: "\<not> truthy (public_share_id p) \<and> randomUUID env = Some sid"
  with assms(1,2) have e: "handleShareProject env user st = share_fresh env st p"
    by (simp add: handleShareProject_fresh)
  show ?thesis
    using copyToClipboard_fallback [OF assms(4)]
      copyToClipboard_effects [of env "origin env @ ''/share/'' @ sid"] a
    unfolding e
    by (auto simp: share_fresh_def publicUrl_def Let_def
        split: prod.splits update_outcome.splits)
qed

theorem handleShareProject_clipboard_failure_witness:
  "handleShareProject
     \<lparr>origin = ''https://app.example'', has_clipboard = True, writeText = (\<lambda>t. False),
       execCommand_copy = (\<lambda>t. Some False), randomUUID = Some ''u-1'',
       projects_update = (\<lambda>s pid. UpdateOk)\<rparr>
     True
     \<lparr>project = Some \<lparr>project_id = ''p1'', public_share_id = None\<rparr>,
       cardOrder = DEFAULT_CARD_ORDER, copySuccess = False\<rparr> =
   (\<lparr>project = Some \<lparr>project_id = ''p1'', public_share_id = None\<rparr>,
      cardOrder = DEFAULT_CARD_ORDER, copySuccess = False\<rparr>,
    [RandomUUID, ClipboardWriteText ''https://app.example/share/u-1'',
     ExecCommandCopy ''https://app.example/share/u-1'', Alert copy_failed]) \<and>
   handleShareProject
     \<lparr>origin = ''https://app.example'', has_clipboard = False, writeText = (\<lambda>t. True),
       execCommand_copy = (\<lambda>t. None), randomUUID = Some ''u-1'',
       projects_update = (\<lambda>s pid. UpdateOk)\<rparr>
     True
     \<lparr>project = Some \<lparr>project_id = ''p1'', public_share_id = Some ''s-9''\<rparr>,
       cardOrder = DEFAULT_CARD_ORDER, copySuccess = False\<rparr> =
   (\<lparr>project = Some \<lparr>project_id = ''p1'', public_share_id = Some ''s-9''\<rparr>,
      cardOrder = DEFAULT_CARD_ORDER, copySuccess = False\<rparr>,
    [ExecCommandCopy ''https://app.example/share/s-9'', Alert copy_failed])"
proof -
  let ?env = "\<lparr>origin = ''https://app.example'', has_clipboard = True, writeText = (\<lambda>t. False),
       execCommand_copy = (\<lambda>t. Some False), randomUUID = Some ''u-1'',
       projects_update = (\<lambda>s pid. UpdateOk)\<rparr>"
  let ?p = "\<lparr>project_id = ''p1'', public_share_id = None\<rparr>"
  let ?st = "\<lparr>project = Some ?p, cardOrder = DEFAULT_CARD_ORDER, copySuccess = False\<rparr>"
  let ?env' = "\<lparr>origin = ''https://app.example'', has_clipboard = False,
       writeText = (\<lambda>t. True), execCommand_copy = (\<lambda>t. None),
       randomUUID = Some ''u-1'', projects_update = (\<lambda>s pid. UpdateOk)\<rparr>"
  let ?p' = "\<lparr>project_id = ''p1'', public_share_id = Some ''s-9''\<rparr>"
  let ?st' = "\<lparr>project = Some ?p', cardOrder = DEFAULT_CARD_ORDER, copySuccess = False\<rparr>"
  have h1: "project ?st = Some ?p" and h2: True
    and h3: "(truthy (public_share_id ?p) \<and> public_share_id ?p = Some ''u-1'') \<or>
            (\<not> truthy (public_share_id ?p) \<and> randomUUID ?env = Some ''u-1'')"
    and h4: "\<not> (has_clipboard ?env \<and> writeText ?env (origin ?env @ ''/share/'' @ ''u-1''))"
    and k1: "project ?st' = Some ?p'"
    and k3: "(truthy (public_share_id ?p') \<and> public_share_id ?p' = Some ''s-9'') \<or>
            (\<not> truthy (public_share_id ?p') \<and> randomUUID ?env' = Some ''s-9'')"
    and k4: "\<not> (has_clipboard ?env' \<and> writeText ?env' (origin ?env' @ ''/share/'' @ ''s-9''))"
    by simp_all
  have effects: "snd (handleShareProject ?env True ?st) =
      [RandomUUID, ClipboardWriteText ''https://app.example/share/u-1'',
       ExecCommandCopy ''https://app.example/share/u-1'', Alert copy_failed]"
    by (simp add: handleShareProject_def share_fresh_def copyToClipboard_def publicUrl_def)
  have effects': "snd (handleShareProject ?env' True ?st') =
      [ExecCommandCopy ''https://app.example/share/s-9'', Alert copy_failed]"
    by (simp add: handleShareProject_def share_existing_def copyToClipboard_def publicUrl_def)
  from handleShareProject_clipboard_failure [OF h1 h2 h3 h4]
  have "fst (handleShareProject ?env True ?st) = ?st"
    by simp
  with effects have fresh: "handleShareProject ?env True ?st =
      (?st, [RandomUUID, ClipboardWriteText ''https://app.example/share/u-1'',
             ExecCommandCopy ''https://app.example/share/u-1'', Alert copy_failed])"
    by (simp add: prod_eq_iff)
  from handleShareProject_clipboard_failure [OF k1 h2 k3 k4]
  have "fst (handleShareProject ?env' True ?st') = ?st'"
    by simp
  with effects' have existing: "handleShareProject ?env' True ?st' =
      (?st', [ExecCommandCopy ''https://app.example/share/s-9'', Alert copy_failed])"
    by (simp add: prod_eq_iff)
  from fresh existing show ?thesis ..
qed

text \<open>
  C7. On a share invocation (signed-in user) for a project that already has a non-empty
  share identifier, the handler offers to the clipboard the URL made of the origin,
  "/share/" and that identifier, and nothing else: its only effects are copies of that
  URL, the timer for the "copied" mark or the alert that copying failed. It does not call
  the generator, it does not update the project record, and the project in the page
  state is unchanged.
\<close>

theorem handleShareProject_existing_id:
  assumes "project st = Some p"
    and "user"
    and "public_share_id p = Some sid"
    and "sid \<noteq> []"
  shows "project (fst (handleShareProject env user st)) = project st \<and>
         set (snd (handleShareProject env user st)) \<subseteq>
           {ClipboardWriteText (origin env @ ''/share/'' @ sid),
            ExecCommandCopy (origin env @ ''/share/'' @ sid),
            ResetCopySuccessLater, Alert copy_failed} \<and>
         (ClipboardWriteText (origin env @ ''/share/'' @ sid)
            \<in> set (snd (handleShareProject env user st)) \<or>
          ExecCommandCopy (origin env @ ''/share/'' @ sid)
            \<in> set (snd (handleShareProject env user st)))"
  using copyToClipboard_effects [of env "origin env @ ''/share/'' @ sid"]
    copyToClipboard_attempts [where env = env and t = "origin env @ ''/share/'' @ sid"]
  unfolding handleShareProject_existing [OF assms]
  by (auto simp: share_existing_def publicUrl_def split: prod.splits)

theorem handleShareProject_existing_id_witness:
  "handleShareProject
     \<lparr>origin = ''https://app.example'', has_clipboard = True, writeText = (\<lambda>t. True),
       execCommand_copy = (\<lambda>t. None), randomUUID = Some ''u-1'',
       projects_update = (\<lambda>s pid. UpdateOk)\<rparr>
     True
     \<lparr>project = Some \<lparr>project_id = ''p1'', public_share_id = Some ''s-9''\<rparr>,
       cardOrder = DEFAULT_CARD_ORDER, copySuccess = False\<rparr> =
   (\<lparr>project = Some \<lparr>project_id = ''p1'', public_share_id = Some ''s-9''\<rparr>,
      cardOrder = DEFAULT_CARD_ORDER, copySuccess = True\<rparr>,
    [ClipboardWriteText ''https://app.example/share/s-9'', ResetCopySuccessLater])"
proof -
  let ?env = "\<lparr>origin = ''https://app.example'', has_clipboard = True, writeText = (\<lambda>t. True),
       execCommand_copy = (\<lambda>t. None), randomUUID = Some ''u-1'',
       projects_update = (\<lambda>s pid. UpdateOk)\<rparr>"
  let ?p = "\<lparr>project_id = ''p1'', public_share_id = Some ''s-9''\<rparr>"
  let ?st = "\<lparr>project = Some ?p, cardOrder = DEFAULT_CARD_ORDER, copySuccess = False\<rparr>"
  have 1: "project ?st = Some ?p" and 2: True and 3: "public_share_id ?p = Some ''s-9''"
    and 4: "''s-9'' \<noteq> []"
    by simp_all
  have effects: "snd (handleShareProject ?env True ?st) =
      [ClipboardWriteText ''https://app.example/share/s-9'', ResetCopySuccessLater]"
    and rest: "cardOrder (fst (handleShareProject ?env True ?st)) = DEFAULT_CARD_ORDER"
      "copySuccess (fst (handleShareProject ?env True ?st))"
    by (simp_all add: handleShareProject_def share_existing_def copyToClipboard_def
        publicUrl_def)
  from handleShareProject_existing_id [OF 1 2 3 4, of ?env]
  have "project (fst (handleShareProject ?env True ?st)) = Some ?p"
    by simp
  with effects rest show ?thesis
    by (cases "handleShareProject ?env True ?st"; cases "fst (handleShareProject ?env True ?st)")
       simp
qed

end
